theory Spec2Isabelle
  imports Complex_Main "HOL-Library.Char_ord" "HOL-Library.List_Lexorder"
    "HOL-Library.Multiset"
begin

section \<open>JavaScript numbers\<close>

text \<open>
  Every \<^verbatim>\<open>number\<close> of the stores is a JavaScript double. The model keeps the three
  non-finite values apart from the finite ones, so that a division by zero gives what
  JavaScript gives (an infinity or NaN) and not HOL's \<open>x / 0 = 0\<close>. Finite values are
  exact reals: rounding and overflow of doubles are not modelled, and the two zeros of
  IEEE 754 are one value (the positive one).
\<close>

datatype jsnum = Fin real | PInf | NInf | NaN

fun jneg :: "jsnum \<Rightarrow> jsnum" where
  "jneg (Fin a) = Fin (- a)"
| "jneg PInf = NInf"
| "jneg NInf = PInf"
| "jneg NaN = NaN"

fun jadd :: "jsnum \<Rightarrow> jsnum \<Rightarrow> jsnum" where
  "jadd (Fin a) (Fin b) = Fin (a + b)"
| "jadd (Fin a) PInf = PInf"
| "jadd (Fin a) NInf = NInf"
| "jadd PInf (Fin b) = PInf"
| "jadd PInf PInf = PInf"
| "jadd PInf NInf = NaN"
| "jadd NInf (Fin b) = NInf"
| "jadd NInf PInf = NaN"
| "jadd NInf NInf = NInf"
| "jadd NaN y = NaN"
| "jadd x NaN = NaN"

definition jsub :: "jsnum \<Rightarrow> jsnum \<Rightarrow> jsnum" where
  "jsub x y = jadd x (jneg y)"

text \<open>The infinity whose sign is the sign of a non-zero real.\<close>

definition inf_of_sign :: "real \<Rightarrow> jsnum" where
  "inf_of_sign a = (if 0 < a then PInf else NInf)"

fun jmul :: "jsnum \<Rightarrow> jsnum \<Rightarrow> jsnum" where
  "jmul (Fin a) (Fin b) = Fin (a * b)"
| "jmul (Fin a) PInf = (if a = 0 then NaN else inf_of_sign a)"
| "jmul (Fin a) NInf = (if a = 0 then NaN else inf_of_sign (- a))"
| "jmul PInf (Fin b) = (if b = 0 then NaN else inf_of_sign b)"
| "jmul NInf (Fin b) = (if b = 0 then NaN else inf_of_sign (- b))"
| "jmul PInf PInf = PInf"
| "jmul PInf NInf = NInf"
| "jmul NInf PInf = NInf"
| "jmul NInf NInf = PInf"
| "jmul NaN y = NaN"
| "jmul x NaN = NaN"

fun jdiv :: "jsnum \<Rightarrow> jsnum \<Rightarrow> jsnum" where
  "jdiv (Fin a) (Fin b) =
     (if b = 0 then (if a = 0 then NaN else inf_of_sign a) else Fin (a / b))"
| "jdiv (Fin a) PInf = Fin 0"
| "jdiv (Fin a) NInf = Fin 0"
| "jdiv PInf (Fin b) = (if 0 \<le> b then PInf else NInf)"
| "jdiv NInf (Fin b) = (if 0 \<le> b then NInf else PInf)"
| "jdiv PInf PInf = NaN"
| "jdiv PInf NInf = NaN"
| "jdiv NInf PInf = NaN"
| "jdiv NInf NInf = NaN"
| "jdiv NaN y = NaN"
| "jdiv x NaN = NaN"

text \<open>The relational operators \<^verbatim>\<open><\<close> and \<^verbatim>\<open>>\<close>: false as soon as one side is NaN.\<close>

fun jlt :: "jsnum \<Rightarrow> jsnum \<Rightarrow> bool" where
  "jlt (Fin a) (Fin b) = (a < b)"
| "jlt (Fin a) PInf = True"
| "jlt (Fin a) NInf = False"
| "jlt PInf y = False"
| "jlt NInf (Fin b) = True"
| "jlt NInf PInf = True"
| "jlt NInf NInf = False"
| "jlt x NaN = False"
| "jlt NaN y = False"

definition jgt :: "jsnum \<Rightarrow> jsnum \<Rightarrow> bool" where
  "jgt x y = jlt y x"

text \<open>ToBoolean on a number: 0 and NaN are falsy.\<close>

fun truthy :: "jsnum \<Rightarrow> bool" where
  "truthy (Fin a) = (a \<noteq> 0)"
| "truthy PInf = True"
| "truthy NInf = True"
| "truthy NaN = False"

text \<open>\<^verbatim>\<open>x || y\<close> on numbers, and on a number that may be \<^verbatim>\<open>undefined\<close>.\<close>

definition jor :: "jsnum \<Rightarrow> jsnum \<Rightarrow> jsnum" where
  "jor x y = (if truthy x then x else y)"

definition jor_undefined :: "jsnum option \<Rightarrow> jsnum \<Rightarrow> jsnum" where
  "jor_undefined x y = (case x of None \<Rightarrow> y | Some v \<Rightarrow> jor v y)"

definition Math_max :: "jsnum \<Rightarrow> jsnum \<Rightarrow> jsnum" where
  "Math_max x y = (if x = NaN \<or> y = NaN then NaN else if jlt x y then y else x)"

definition Math_min :: "jsnum \<Rightarrow> jsnum \<Rightarrow> jsnum" where
  "Math_min x y = (if x = NaN \<or> y = NaN then NaN else if jlt y x then y else x)"

fun Math_floor :: "jsnum \<Rightarrow> jsnum" where
  "Math_floor (Fin a) = Fin (of_int \<lfloor>a\<rfloor>)"
| "Math_floor x = x"

fun Math_ceil :: "jsnum \<Rightarrow> jsnum" where
  "Math_ceil (Fin a) = Fin (of_int \<lceil>a\<rceil>)"
| "Math_ceil x = x"

section \<open>Strings\<close>

text \<open>
  \<^verbatim>\<open>toUpperCase\<close> and \<^verbatim>\<open>toLowerCase\<close> on the ASCII letters; every other character is
  left as it is (the symbols and names of this dashboard are ASCII).
\<close>

definition lower_letters :: string where
  "lower_letters = ''abcdefghijklmnopqrstuvwxyz''"

definition upper_letters :: string where
  "upper_letters = ''ABCDEFGHIJKLMNOPQRSTUVWXYZ''"

definition toUpperCase_char :: "char \<Rightarrow> char" where
  "toUpperCase_char c =
     (case map_of (zip lower_letters upper_letters) c of None \<Rightarrow> c | Some u \<Rightarrow> u)"


definition toUpperCase :: "string \<Rightarrow> string" where
  "toUpperCase s = map toUpperCase_char s"


section \<open>The portfolio store\<close>

record Position =
  id_pos :: string
  symbol :: string
  name :: string
  amount :: jsnum
  currentPrice :: jsnum
  averageBuyPrice :: jsnum
  totalValue :: jsnum
  dailyChange :: jsnum
  dailyChangePercent :: jsnum
  totalGainLoss :: jsnum
  totalGainLossPercent :: jsnum
  lastUpdated :: jsnum

record PortfolioMetrics =
  totalValue_m :: jsnum
  dailyChange_m :: jsnum
  dailyChangePercent_m :: jsnum
  totalAssets :: nat
  bestPerformer :: string
  worstPerformer :: string
  totalGainLoss_m :: jsnum
  totalGainLossPercent_m :: jsnum

text \<open>\<^verbatim>\<open>positions[0]\<close>: \<^verbatim>\<open>undefined\<close> on the empty array.\<close>

definition first_position :: "Position list \<Rightarrow> Position option" where
  "first_position positions = (case positions of [] \<Rightarrow> None | p # _ \<Rightarrow> Some p)"

text \<open>
  The two callbacks of \<^verbatim>\<open>reduce\<close> in \<^verbatim>\<open>calculateMetrics\<close>:
  \<^verbatim>\<open>p.dailyChangePercent > (best?.dailyChangePercent || -Infinity) ? p : best\<close> and its
  mirror image for the worst performer.
\<close>

definition best_step :: "Position option \<Rightarrow> Position \<Rightarrow> Position option" where
  "best_step best p =
     (if jgt (dailyChangePercent p) (jor_undefined (map_option dailyChangePercent best) NInf)
      then Some p else best)"

definition worst_step :: "Position option \<Rightarrow> Position \<Rightarrow> Position option" where
  "worst_step worst p =
     (if jlt (dailyChangePercent p) (jor_undefined (map_option dailyChangePercent worst) PInf)
      then Some p else worst)"

text \<open>\<^verbatim>\<open>performer?.symbol.toUpperCase() || 'N/A'\<close>: the empty string is falsy too.\<close>

definition performer_label :: "Position option \<Rightarrow> string" where
  "performer_label performer =
     (case performer of
        None \<Rightarrow> ''N/A''
      | Some p \<Rightarrow> (if toUpperCase (symbol p) = [] then ''N/A'' else toUpperCase (symbol p)))"

definition calculateMetrics :: "Position list \<Rightarrow> PortfolioMetrics" where
  "calculateMetrics positions =
     (let totalValue' = foldl (\<lambda>sum p. jadd sum (totalValue p)) (Fin 0) positions;
          dailyChange' = foldl (\<lambda>sum p. jadd sum (jmul (dailyChange p) (amount p))) (Fin 0) positions;
          totalGainLoss' = foldl (\<lambda>sum p. jadd sum (totalGainLoss p)) (Fin 0) positions;
          bestPerformer' = foldl best_step (first_position positions) positions;
          worstPerformer' = foldl worst_step (first_position positions) positions
      in \<lparr> totalValue_m = totalValue',
           dailyChange_m = dailyChange',
           dailyChangePercent_m =
             (if jgt totalValue' (Fin 0) then jmul (jdiv dailyChange' totalValue') (Fin 100)
              else Fin 0),
           totalAssets = length positions,
           bestPerformer = performer_label bestPerformer',
           worstPerformer = performer_label worstPerformer',
           totalGainLoss_m = totalGainLoss',
           totalGainLossPercent_m =
             (if jgt totalValue' (Fin 0)
              then jmul (jdiv totalGainLoss' (jsub totalValue' totalGainLoss')) (Fin 100)
              else Fin 0) \<rparr>)"

text \<open>
  The part of the store's state that the position operations read and write. The clock
  (\<^verbatim>\<open>Date.now()\<close>) is the argument \<open>now\<close> of each operation, read once.
\<close>

record PortfolioState =
  positions :: "Position list"
  metrics :: PortfolioMetrics
  lastUpdated_s :: jsnum

definition initial_PortfolioState :: "jsnum \<Rightarrow> PortfolioState" where
  "initial_PortfolioState now =
     \<lparr> positions = [],
       metrics = \<lparr> totalValue_m = Fin 0, dailyChange_m = Fin 0, dailyChangePercent_m = Fin 0,
                   totalAssets = 0, bestPerformer = ''N/A'', worstPerformer = ''N/A'',
                   totalGainLoss_m = Fin 0, totalGainLossPercent_m = Fin 0 \<rparr>,
       lastUpdated_s = now \<rparr>"

definition addPosition :: "jsnum \<Rightarrow> Position \<Rightarrow> PortfolioState \<Rightarrow> PortfolioState" where
  "addPosition now position state =
     (let positions' = positions state @ [position\<lparr>lastUpdated := now\<rparr>]
      in state\<lparr> positions := positions',
                metrics := calculateMetrics positions',
                lastUpdated_s := now \<rparr>)"

text \<open>\<^verbatim>\<open>Partial<Position>\<close>: each property is present or absent.\<close>

record PositionUpdates =
  id_pos_u :: "string option"
  symbol_u :: "string option"
  name_u :: "string option"
  amount_u :: "jsnum option"
  currentPrice_u :: "jsnum option"
  averageBuyPrice_u :: "jsnum option"
  totalValue_u :: "jsnum option"
  dailyChange_u :: "jsnum option"
  dailyChangePercent_u :: "jsnum option"
  totalGainLoss_u :: "jsnum option"
  totalGainLossPercent_u :: "jsnum option"
  lastUpdated_u :: "jsnum option"

text \<open>\<^verbatim>\<open>Object.assign(position, updates, { lastUpdated: Date.now() })\<close>.\<close>

definition assign_updates :: "jsnum \<Rightarrow> Position \<Rightarrow> PositionUpdates \<Rightarrow> Position" where
  "assign_updates now p u =
     \<lparr> id_pos = (case id_pos_u u of None \<Rightarrow> id_pos p | Some v \<Rightarrow> v),
       symbol = (case symbol_u u of None \<Rightarrow> symbol p | Some v \<Rightarrow> v),
       name = (case name_u u of None \<Rightarrow> name p | Some v \<Rightarrow> v),
       amount = (case amount_u u of None \<Rightarrow> amount p | Some v \<Rightarrow> v),
       currentPrice = (case currentPrice_u u of None \<Rightarrow> currentPrice p | Some v \<Rightarrow> v),
       averageBuyPrice = (case averageBuyPrice_u u of None \<Rightarrow> averageBuyPrice p | Some v \<Rightarrow> v),
       totalValue = (case totalValue_u u of None \<Rightarrow> totalValue p | Some v \<Rightarrow> v),
       dailyChange = (case dailyChange_u u of None \<Rightarrow> dailyChange p | Some v \<Rightarrow> v),
       dailyChangePercent =
         (case dailyChangePercent_u u of None \<Rightarrow> dailyChangePercent p | Some v \<Rightarrow> v),
       totalGainLoss = (case totalGainLoss_u u of None \<Rightarrow> totalGainLoss p | Some v \<Rightarrow> v),
       totalGainLossPercent =
         (case totalGainLossPercent_u u of None \<Rightarrow> totalGainLossPercent p | Some v \<Rightarrow> v),
       lastUpdated = now \<rparr>"

text \<open>
  \<^verbatim>\<open>findIndex\<close> or \<^verbatim>\<open>find\<close> followed by a mutation of the element found: the first
  element that satisfies the predicate is replaced, the others stay.
\<close>

fun update_first :: "('a \<Rightarrow> bool) \<Rightarrow> ('a \<Rightarrow> 'a) \<Rightarrow> 'a list \<Rightarrow> 'a list" where
  "update_first P f [] = []"
| "update_first P f (x # xs) = (if P x then f x # xs else x # update_first P f xs)"

definition updatePosition ::
  "jsnum \<Rightarrow> string \<Rightarrow> PositionUpdates \<Rightarrow> PortfolioState \<Rightarrow> PortfolioState" where
  "updatePosition now ident updates state =
     (if list_ex (\<lambda>p. id_pos p = ident) (positions state)
      then (let positions' =
                  update_first (\<lambda>p. id_pos p = ident) (\<lambda>p. assign_updates now p updates)
                    (positions state)
            in state\<lparr> positions := positions',
                      metrics := calculateMetrics positions',
                      lastUpdated_s := now \<rparr>)
      else state)"

definition removePosition :: "jsnum \<Rightarrow> string \<Rightarrow> PortfolioState \<Rightarrow> PortfolioState" where
  "removePosition now ident state =
     (let positions' = filter (\<lambda>p. id_pos p \<noteq> ident) (positions state)
      in state\<lparr> positions := positions',
                metrics := calculateMetrics positions',
                lastUpdated_s := now \<rparr>)"

text \<open>
  The body of the \<^verbatim>\<open>forEach\<close> of \<^verbatim>\<open>updatePrices\<close>. The update map is a
  \<^verbatim>\<open>Record<string, number>\<close>; a symbol that is not a key reads as \<^verbatim>\<open>undefined\<close>. The
  guard \<^verbatim>\<open>if (priceUpdates[position.symbol])\<close> is a truthiness test of the price.
\<close>

definition apply_price :: "jsnum \<Rightarrow> jsnum \<Rightarrow> Position \<Rightarrow> Position" where
  "apply_price now newPrice position =
     (let oldPrice = currentPrice position;
          totalValue' = jmul (amount position) newPrice
      in position\<lparr> currentPrice := newPrice,
                   totalValue := totalValue',
                   dailyChange := jsub newPrice oldPrice,
                   dailyChangePercent := jmul (jdiv (jsub newPrice oldPrice) oldPrice) (Fin 100),
                   totalGainLoss :=
                     jsub totalValue' (jmul (amount position) (averageBuyPrice position)),
                   totalGainLossPercent :=
                     jmul (jdiv (jsub newPrice (averageBuyPrice position))
                                (averageBuyPrice position)) (Fin 100),
                   lastUpdated := now \<rparr>)"

definition update_price_of :: "jsnum \<Rightarrow> (string \<rightharpoonup> jsnum) \<Rightarrow> Position \<Rightarrow> Position" where
  "update_price_of now priceUpdates position =
     (case priceUpdates (symbol position) of
        None \<Rightarrow> position
      | Some newPrice \<Rightarrow> (if truthy newPrice then apply_price now newPrice position else position))"

definition updatePrices ::
  "jsnum \<Rightarrow> (string \<rightharpoonup> jsnum) \<Rightarrow> PortfolioState \<Rightarrow> PortfolioState" where
  "updatePrices now priceUpdates state =
     (let positions' = map (update_price_of now priceUpdates) (positions state)
      in state\<lparr> positions := positions',
                metrics := calculateMetrics positions',
                lastUpdated_s := now \<rparr>)"

datatype TradeType = Buy | Sell

record Trade =
  symbol_t :: string
  amount_t :: jsnum
  price_t :: jsnum
  type_t :: TradeType

definition trade_position :: "jsnum \<Rightarrow> Trade \<Rightarrow> Position \<Rightarrow> Position" where
  "trade_position now trade position =
     (case type_t trade of
        Buy \<Rightarrow>
          (let newAmount = jadd (amount position) (amount_t trade);
               newAverageBuyPrice =
                 jdiv (jadd (jmul (amount position) (averageBuyPrice position))
                            (jmul (amount_t trade) (price_t trade))) newAmount;
               totalValue' = jmul newAmount (currentPrice position)
           in position\<lparr> amount := newAmount,
                        averageBuyPrice := newAverageBuyPrice,
                        totalValue := totalValue',
                        totalGainLoss := jsub totalValue' (jmul newAmount newAverageBuyPrice),
                        totalGainLossPercent :=
                          jmul (jdiv (jsub (currentPrice position) newAverageBuyPrice)
                                     newAverageBuyPrice) (Fin 100),
                        lastUpdated := now \<rparr>)
      | Sell \<Rightarrow>
          (let newAmount = Math_max (Fin 0) (jsub (amount position) (amount_t trade));
               totalValue' = jmul newAmount (currentPrice position)
           in position\<lparr> amount := newAmount,
                        totalValue := totalValue',
                        totalGainLoss :=
                          jsub totalValue' (jmul newAmount (averageBuyPrice position)),
                        lastUpdated := now \<rparr>))"

definition optimisticTrade :: "jsnum \<Rightarrow> Trade \<Rightarrow> PortfolioState \<Rightarrow> PortfolioState" where
  "optimisticTrade now trade state =
     (let positions' =
            update_first (\<lambda>p. symbol p = symbol_t trade) (trade_position now trade)
              (positions state)
      in state\<lparr> positions := positions',
                metrics := calculateMetrics positions',
                lastUpdated_s := now \<rparr>)"

section \<open>The virtualized positions list\<close>

text \<open>
  \<^verbatim>\<open>Array.prototype.slice\<close>: an index is truncated towards zero, NaN counts as 0, a
  negative index counts from the end, and both indices are clamped to the array.
\<close>

definition trunc :: "real \<Rightarrow> int" where
  "trunc a = (if 0 \<le> a then \<lfloor>a\<rfloor> else \<lceil>a\<rceil>)"

definition relative_index :: "nat \<Rightarrow> jsnum \<Rightarrow> nat" where
  "relative_index len x =
     (case x of
        NaN \<Rightarrow> 0
      | NInf \<Rightarrow> 0
      | PInf \<Rightarrow> len
      | Fin a \<Rightarrow> (if trunc a < 0 then nat (max (int len + trunc a) 0)
                  else min (nat (trunc a)) len))"

definition slice :: "'a list \<Rightarrow> jsnum \<Rightarrow> jsnum \<Rightarrow> 'a list" where
  "slice xs start end' =
     (let k = relative_index (length xs) start;
          final = relative_index (length xs) end'
      in if k < final then take (final - k) (drop k xs) else [])"

record 'a Virtualization =
  visibleItems :: "'a list"
  totalHeight :: jsnum
  offsetY :: jsnum
  startIndex :: jsnum
  endIndex :: jsnum

text \<open>The hook's result as a function of its arguments and of its state \<open>scrollTop\<close>.\<close>

definition useVirtualization :: "'a list \<Rightarrow> jsnum \<Rightarrow> jsnum \<Rightarrow> jsnum \<Rightarrow> 'a Virtualization" where
  "useVirtualization items containerHeight itemHeight scrollTop =
     (let startIndex' = Math_floor (jdiv scrollTop itemHeight);
          endIndex' =
            Math_min
              (jadd (jadd startIndex' (Math_ceil (jdiv containerHeight itemHeight))) (Fin 1))
              (jsub (Fin (of_nat (length items))) (Fin 1))
      in \<lparr> visibleItems = slice items startIndex' (jadd endIndex' (Fin 1)),
           totalHeight = jmul (Fin (of_nat (length items))) itemHeight,
           offsetY = jmul startIndex' itemHeight,
           startIndex = startIndex',
           endIndex = endIndex' \<rparr>)"

text \<open>The default of the parameter \<^verbatim>\<open>itemHeight\<close>.\<close>

definition default_itemHeight :: jsnum where
  "default_itemHeight = Fin 56"

subsection \<open>Filtering and sorting\<close>












section \<open>The market store\<close>

record MarketData =
  symbol_md :: string
  price :: jsnum
  change24h :: jsnum
  changePercent24h :: jsnum
  volume24h :: jsnum
  marketCap :: jsnum
  lastUpdated_md :: jsnum

record OrderBookEntry =
  price_e :: jsnum
  amount_e :: jsnum
  total_e :: jsnum

text \<open>
  An order book object, stored or given as \<^verbatim>\<open>Partial<OrderBook>\<close>: each property is
  present or absent.
\<close>

record OrderBook =
  symbol_ob :: "string option"
  bids :: "OrderBookEntry list option"
  asks :: "OrderBookEntry list option"
  lastUpdated_ob :: "jsnum option"

definition no_properties :: OrderBook where
  "no_properties = \<lparr> symbol_ob = None, bids = None, asks = None, lastUpdated_ob = None \<rparr>"

text \<open>\<^verbatim>\<open>{ ...a, ...b }\<close>: a property of \<open>b\<close> overrides the one of \<open>a\<close>.\<close>

definition spread :: "OrderBook \<Rightarrow> OrderBook \<Rightarrow> OrderBook" where
  "spread a b =
     \<lparr> symbol_ob = (case symbol_ob b of None \<Rightarrow> symbol_ob a | Some v \<Rightarrow> Some v),
       bids = (case bids b of None \<Rightarrow> bids a | Some v \<Rightarrow> Some v),
       asks = (case asks b of None \<Rightarrow> asks a | Some v \<Rightarrow> Some v),
       lastUpdated_ob = (case lastUpdated_ob b of None \<Rightarrow> lastUpdated_ob a | Some v \<Rightarrow> Some v) \<rparr>"

record MarketState =
  marketData :: "string \<rightharpoonup> MarketData"
  orderBooks :: "string \<rightharpoonup> OrderBook"
  priceUpdates :: "string \<rightharpoonup> jsnum"
  lastPriceUpdate :: jsnum
  subscribedSymbols :: "string set"
  connectionRetryCount :: nat
  maxRetries :: nat

definition initial_MarketState :: MarketState where
  "initial_MarketState =
     \<lparr> marketData = Map.empty, orderBooks = Map.empty, priceUpdates = Map.empty,
       lastPriceUpdate = Fin 0, subscribedSymbols = {}, connectionRetryCount = 0,
       maxRetries = 5 \<rparr>"

definition updateOrderBook :: "jsnum \<Rightarrow> string \<Rightarrow> OrderBook \<Rightarrow> MarketState \<Rightarrow> MarketState" where
  "updateOrderBook now sy orderBook state =
     state\<lparr> orderBooks :=
       (orderBooks state)(sy \<mapsto>
          (spread (case orderBooks state sy of None \<Rightarrow> no_properties | Some old \<Rightarrow> old)
                  orderBook)
            \<lparr> symbol_ob := Some sy, bids := Some [], asks := Some [],
              lastUpdated_ob := Some now \<rparr>) \<rparr>"

text \<open>
  The market-data part of \<^verbatim>\<open>updatePrice\<close> and of the body of \<^verbatim>\<open>bulkUpdatePrices\<close>; its
  guard \<^verbatim>\<open>if (state.marketData[symbol])\<close> tests that the entry exists.
\<close>

definition set_market_price :: "jsnum \<Rightarrow> jsnum \<Rightarrow> MarketData \<Rightarrow> MarketData" where
  "set_market_price now newPrice md =
     (let oldPrice = price md
      in md\<lparr> price := newPrice,
             change24h := jsub newPrice oldPrice,
             changePercent24h := jmul (jdiv (jsub newPrice oldPrice) oldPrice) (Fin 100),
             lastUpdated_md := now \<rparr>)"

definition bulk_step :: "jsnum \<Rightarrow> MarketState \<Rightarrow> string \<times> jsnum \<Rightarrow> MarketState" where
  "bulk_step now state entry =
     (case entry of (sy, newPrice) \<Rightarrow>
        (let state1 = state\<lparr> priceUpdates := (priceUpdates state)(sy \<mapsto> newPrice) \<rparr>
         in case marketData state1 sy of
              None \<Rightarrow> state1
            | Some md \<Rightarrow>
                state1\<lparr> marketData :=
                  (marketData state1)(sy \<mapsto> set_market_price now newPrice md) \<rparr>))"

text \<open>
  \<open>updates\<close> is \<^verbatim>\<open>Object.entries\<close> of the update object: its entries in order, each key
  once.
\<close>

definition bulkUpdatePrices ::
  "jsnum \<Rightarrow> (string \<times> jsnum) list \<Rightarrow> MarketState \<Rightarrow> MarketState" where
  "bulkUpdatePrices now updates state =
     (foldl (bulk_step now) state updates)\<lparr> lastPriceUpdate := now \<rparr>"

section \<open>Predicates and inputs of the properties\<close>

text \<open>The consistency rule of a holding: its total value is quantity times current price.\<close>

definition value_consistent :: "Position \<Rightarrow> bool" where
  "value_consistent p = (totalValue p = jmul (amount p) (currentPrice p))"

text \<open>The properties of a position that a simulated sell does not write.\<close>

definition fields_kept_by_sell ::
  "Position \<Rightarrow> string \<times> string \<times> string \<times> jsnum \<times> jsnum \<times> jsnum \<times> jsnum \<times> jsnum" where
  "fields_kept_by_sell p =
     (id_pos p, symbol p, name p, currentPrice p, averageBuyPrice p, dailyChange p,
      dailyChangePercent p, totalGainLossPercent p)"

text \<open>Every stored order book has no bids and no asks.\<close>

definition orderBooks_cleared :: "MarketState \<Rightarrow> bool" where
  "orderBooks_cleared state =
     (\<forall>sy ob. orderBooks state sy = Some ob \<longrightarrow> bids ob = Some [] \<and> asks ob = Some [])"

text \<open>
  The holding of the specification's scenario (2 BTC at 50000, bought at 40000), and the
  store that holds it alone.
\<close>

definition btc_holding :: Position where
  "btc_holding =
     \<lparr> id_pos = ''1'', symbol = ''BTC'', name = ''Bitcoin'', amount = Fin 2,
       currentPrice = Fin 50000, averageBuyPrice = Fin 40000, totalValue = Fin 100000,
       dailyChange = Fin 0, dailyChangePercent = Fin 0, totalGainLoss = Fin 20000,
       totalGainLossPercent = Fin 25, lastUpdated = Fin 0 \<rparr>"

definition btc_state :: PortfolioState where
  "btc_state = addPosition (Fin 0) btc_holding (initial_PortfolioState (Fin 0))"

text \<open>A store with two positions of the same symbol, as adding BTC twice leaves it.\<close>

definition two_btc_state :: PortfolioState where
  "two_btc_state = addPosition (Fin 0) (btc_holding\<lparr>id_pos := ''3''\<rparr>) btc_state"

text \<open>A market store that lists BTC at 50000.\<close>

definition btc_market :: MarketState where
  "btc_market =
     initial_MarketState
       \<lparr> marketData :=
           [''BTC'' \<mapsto> \<lparr> symbol_md = ''BTC'', price = Fin 50000, change24h = Fin 0,
                          changePercent24h = Fin 0, volume24h = Fin 0, marketCap = Fin 0,
                          lastUpdated_md = Fin 0 \<rparr>] \<rparr>"








section \<open>Properties of the metrics calculator\<close>

text \<open>
  C5. On the empty positions list \<open>calculateMetrics\<close> returns the aggregate whose
  numeric fields are all 0 and whose best and worst performer are both the sentinel
  \<open>N/A\<close>; the model has no error value, and the two \<open>reduce\<close> calls start from
  \<open>undefined\<close> and return it.
\<close>

theorem calculateMetrics_empty:
  "calculateMetrics [] =
     \<lparr> totalValue_m = Fin 0, dailyChange_m = Fin 0, dailyChangePercent_m = Fin 0,
       totalAssets = 0, bestPerformer = ''N/A'', worstPerformer = ''N/A'',
       totalGainLoss_m = Fin 0, totalGainLossPercent_m = Fin 0 \<rparr>"
  by (simp add: calculateMetrics_def Let_def first_position_def performer_label_def jgt_def)

section \<open>Lemmas on the list operations of the stores\<close>

lemma length_update_first: "length (update_first P f xs) = length xs"
  by (induction xs) simp_all

lemma update_first_nth:
  "i < length xs \<Longrightarrow> P (xs ! i) \<Longrightarrow> \<forall>j<i. \<not> P (xs ! j) \<Longrightarrow> update_first P f xs ! i = f (xs ! i)"
proof (induction xs arbitrary: i)
  case Nil
  then show ?case by simp
next
  case (Cons x xs)
  show ?case
  proof (cases i)
    case 0
    with Cons.prems show ?thesis by simp
  next
    case (Suc k)
    with Cons.prems have "\<not> P x" by auto
    moreover from Suc Cons.prems have "\<forall>j<k. \<not> P (xs ! j)" by auto
    ultimately show ?thesis using Suc Cons.prems Cons.IH [of k] by simp
  qed
qed

lemma map_update_first_frame:
  "(\<And>x. g (f x) = g x) \<Longrightarrow> map g (update_first P f xs) = map g xs"
  by (induction xs) simp_all

lemma update_first_pred:
  "\<forall>x\<in>set xs. Q x \<Longrightarrow> \<forall>x\<in>set xs. P x \<longrightarrow> Q (f x) \<Longrightarrow>
   \<forall>x\<in>set (update_first P f xs). Q x"
  by (induction xs) simp_all

lemma positions_btc_state: "positions btc_state = [btc_holding]"
  by (simp add: btc_state_def addPosition_def Let_def initial_PortfolioState_def btc_holding_def)

section \<open>The consistency rule of the portfolio store\<close>

lemma value_consistent_apply_price: "value_consistent (apply_price now newPrice p)"
  by (simp add: value_consistent_def apply_price_def Let_def)

lemma value_consistent_trade_position: "value_consistent (trade_position now trade p)"
  by (cases "type_t trade") (simp_all add: value_consistent_def trade_position_def Let_def)

lemma value_consistent_update_price_of:
  "value_consistent p \<Longrightarrow> value_consistent (update_price_of now pu p)"
  by (simp add: update_price_of_def value_consistent_apply_price split: option.splits)

text \<open>
  C1, as stated, fails: \<open>addPosition\<close> stores the position it is given and recomputes
  nothing. Adding to the empty store a holding of 2 units at price 50000 whose
  \<open>totalValue\<close> says 5 leaves a position whose total value is not quantity times price.
\<close>

theorem addPosition_keeps_inconsistent_value:
  "\<not> value_consistent
       (positions (addPosition (Fin 1) (btc_holding\<lparr>totalValue := Fin 5\<rparr>)
                     (initial_PortfolioState (Fin 0))) ! 0)"
  by (simp add: addPosition_def Let_def initial_PortfolioState_def btc_holding_def
        value_consistent_def)

text \<open>
  C1 (amended). \<open>updatePrices\<close> and \<open>optimisticTrade\<close> recompute the total value of every
  position they rewrite, so what they write satisfies totalValue = amount * currentPrice;
  when every position of the store satisfies the rule, every position still does after
  \<open>updatePrices\<close>, \<open>optimisticTrade\<close> and \<open>removePosition\<close>, after \<open>addPosition\<close> of a
  position that satisfies it, and after \<open>updatePosition\<close> when the position that the
  assignment yields satisfies it.
\<close>

theorem total_value_invariant:
  "value_consistent (apply_price now newPrice q) \<and>
   value_consistent (trade_position now trade q) \<and>
   ((\<forall>p\<in>set (positions state). value_consistent p) \<longrightarrow>
      (\<forall>p\<in>set (positions (updatePrices now priceUpdates' state)). value_consistent p) \<and>
      (\<forall>p\<in>set (positions (optimisticTrade now trade state)). value_consistent p) \<and>
      (\<forall>p\<in>set (positions (removePosition now ident state)). value_consistent p) \<and>
      (value_consistent position \<longrightarrow>
         (\<forall>p\<in>set (positions (addPosition now position state)). value_consistent p)) \<and>
      ((\<forall>p\<in>set (positions state).
           id_pos p = ident \<longrightarrow> value_consistent (assign_updates now p updates)) \<longrightarrow>
         (\<forall>p\<in>set (positions (updatePosition now ident updates state)). value_consistent p)))"
proof (intro conjI impI)
  show "value_consistent (apply_price now newPrice q)"
    by (rule value_consistent_apply_price)
  show "value_consistent (trade_position now trade q)"
    by (rule value_consistent_trade_position)
next
  assume inv: "\<forall>p\<in>set (positions state). value_consistent p"
  then show "\<forall>p\<in>set (positions (updatePrices now priceUpdates' state)). value_consistent p"
    by (simp add: updatePrices_def Let_def value_consistent_update_price_of)
  have "\<forall>p\<in>set (update_first (\<lambda>p. symbol p = symbol_t trade) (trade_position now trade)
                     (positions state)). value_consistent p"
    using inv by (rule update_first_pred) (simp add: value_consistent_trade_position)
  then show "\<forall>p\<in>set (positions (optimisticTrade now trade state)). value_consistent p"
    by (simp add: optimisticTrade_def Let_def)
  from inv show "\<forall>p\<in>set (positions (removePosition now ident state)). value_consistent p"
    by (simp add: removePosition_def Let_def)
next
  assume inv: "\<forall>p\<in>set (positions state). value_consistent p"
    and new: "value_consistent position"
  then show "\<forall>p\<in>set (positions (addPosition now position state)). value_consistent p"
    by (auto simp: addPosition_def Let_def value_consistent_def)
next
  assume inv: "\<forall>p\<in>set (positions state). value_consistent p"
    and upd: "\<forall>p\<in>set (positions state).
                id_pos p = ident \<longrightarrow> value_consistent (assign_updates now p updates)"
  have "\<forall>p\<in>set (update_first (\<lambda>p. id_pos p = ident) (\<lambda>p. assign_updates now p updates)
                     (positions state)). value_consistent p"
    using inv upd by (rule update_first_pred)
  with inv show "\<forall>p\<in>set (positions (updatePosition now ident updates state)). value_consistent p"
    by (simp add: updatePosition_def Let_def)
qed

theorem total_value_invariant_witness:
  "list_all value_consistent (positions btc_state) \<and>
   value_consistent btc_holding \<and>
   value_consistent
     (assign_updates (Fin 1) btc_holding
        \<lparr> id_pos_u = None, symbol_u = None, name_u = None, amount_u = Some (Fin 3),
          currentPrice_u = None, averageBuyPrice_u = None, totalValue_u = Some (Fin 150000),
          dailyChange_u = None, dailyChangePercent_u = None, totalGainLoss_u = None,
          totalGainLossPercent_u = None, lastUpdated_u = None \<rparr>) \<and>
   list_all value_consistent
     (positions (updatePrices (Fin 1) [''BTC'' \<mapsto> Fin 60000] btc_state)) \<and>
   list_all value_consistent
     (positions
        (optimisticTrade (Fin 1)
           \<lparr> symbol_t = ''BTC'', amount_t = Fin 1, price_t = Fin 60000, type_t = Sell \<rparr>
           btc_state)) \<and>
   list_all value_consistent (positions (addPosition (Fin 1) btc_holding btc_state)) \<and>
   list_all value_consistent
     (positions
        (updatePosition (Fin 1) ''1''
           \<lparr> id_pos_u = None, symbol_u = None, name_u = None, amount_u = Some (Fin 3),
             currentPrice_u = None, averageBuyPrice_u = None, totalValue_u = Some (Fin 150000),
             dailyChange_u = None, dailyChangePercent_u = None, totalGainLoss_u = None,
             totalGainLossPercent_u = None, lastUpdated_u = None \<rparr>
           btc_state))"
proof -
  have inv: "\<forall>p\<in>set (positions btc_state). value_consistent p"
    by (simp add: positions_btc_state value_consistent_def btc_holding_def)
  have new: "value_consistent btc_holding"
    by (simp add: value_consistent_def btc_holding_def)
  have upd: "value_consistent
     (assign_updates (Fin 1) btc_holding
        \<lparr> id_pos_u = None, symbol_u = None, name_u = None, amount_u = Some (Fin 3),
          currentPrice_u = None, averageBuyPrice_u = None, totalValue_u = Some (Fin 150000),
          dailyChange_u = None, dailyChangePercent_u = None, totalGainLoss_u = None,
          totalGainLossPercent_u = None, lastUpdated_u = None \<rparr>)"
    by (simp add: value_consistent_def btc_holding_def assign_updates_def)
  then have upd': "\<forall>p\<in>set (positions btc_state).
      id_pos p = ''1'' \<longrightarrow>
      value_consistent
        (assign_updates (Fin 1) p
           \<lparr> id_pos_u = None, symbol_u = None, name_u = None, amount_u = Some (Fin 3),
             currentPrice_u = None, averageBuyPrice_u = None, totalValue_u = Some (Fin 150000),
             dailyChange_u = None, dailyChangePercent_u = None, totalGainLoss_u = None,
             totalGainLossPercent_u = None, lastUpdated_u = None \<rparr>)"
    by (simp add: positions_btc_state)
  from inv new upd upd' total_value_invariant [of _ _ _ _ btc_state] show ?thesis
    unfolding list_all_iff by blast
qed

section \<open>The order books of the market store\<close>

text \<open>
  C10. After \<open>updateOrderBook\<close> the stored order book of the symbol has empty bids and
  empty asks, whatever the argument carries; and when every stored order book is empty
  in this sense before the operation, every stored order book is afterwards.
\<close>

theorem updateOrderBook_clears_bids_and_asks:
  "(\<exists>ob. orderBooks (updateOrderBook now sy orderBook state) sy = Some ob \<and>
         bids ob = Some [] \<and> asks ob = Some []) \<and>
   (orderBooks_cleared state \<longrightarrow> orderBooks_cleared (updateOrderBook now sy orderBook state))"
  by (simp add: updateOrderBook_def orderBooks_cleared_def)

theorem updateOrderBook_clears_bids_and_asks_witness:
  "orderBooks_cleared initial_MarketState \<and>
   orderBooks_cleared
     (updateOrderBook (Fin 1) ''btc''
        \<lparr> symbol_ob = None,
          bids = Some [\<lparr> price_e = Fin 50000, amount_e = Fin 1, total_e = Fin 50000 \<rparr>],
          asks = Some [\<lparr> price_e = Fin 50010, amount_e = Fin 2, total_e = Fin 100020 \<rparr>],
          lastUpdated_ob = Some (Fin 1) \<rparr>
        initial_MarketState)"
proof -
  have start: "orderBooks_cleared initial_MarketState"
    by (simp add: orderBooks_cleared_def initial_MarketState_def)
  with updateOrderBook_clears_bids_and_asks show ?thesis
    by blast
qed

section \<open>Price updates\<close>

lemma positions_updatePrices:
  "positions (updatePrices now pu state) = map (update_price_of now pu) (positions state)"
  by (simp add: updatePrices_def Let_def)

text \<open>
  C2, as stated, fails for the price 0 (and for NaN): the guard of \<open>updatePrices\<close> is a
  truthiness test of the price, so the update \<open>{BTC: 0}\<close> leaves the holding at its old
  price 50000 and its old value 100000.
\<close>

theorem updatePrices_ignores_zero_price:
  "currentPrice (positions (updatePrices (Fin 1) [''BTC'' \<mapsto> Fin 0] btc_state) ! 0) = Fin 50000 \<and>
   totalValue (positions (updatePrices (Fin 1) [''BTC'' \<mapsto> Fin 0] btc_state) ! 0) = Fin 100000"
  by (simp add: updatePrices_def Let_def positions_btc_state update_price_of_def btc_holding_def)

text \<open>
  C2 (amended). For every position of the store and every price \<open>p\<close> that is neither 0
  nor NaN, after \<open>updatePrices\<close> with an update map that gives \<open>p\<close> for the position's
  symbol, the position's current price is \<open>p\<close>, its total value is its (unchanged)
  amount times \<open>p\<close>. In the scenario (amount 2, price 50000, bought at 40000, update
  \<open>{BTC: 60000}\<close>) the total value is 120000, the gain 40000 and its percentage 50.
\<close>

theorem updatePrices_sets_price_and_value:
  "(i < length (positions state) \<and> priceUpdates' (symbol (positions state ! i)) = Some p \<and>
    truthy p \<longrightarrow>
      currentPrice (positions (updatePrices now priceUpdates' state) ! i) = p \<and>
      totalValue (positions (updatePrices now priceUpdates' state) ! i) =
        jmul (amount (positions state ! i)) p \<and>
      amount (positions (updatePrices now priceUpdates' state) ! i) =
        amount (positions state ! i)) \<and>
   totalValue (positions (updatePrices now [''BTC'' \<mapsto> Fin 60000] btc_state) ! 0) = Fin 120000 \<and>
   totalGainLoss (positions (updatePrices now [''BTC'' \<mapsto> Fin 60000] btc_state) ! 0) = Fin 40000 \<and>
   totalGainLossPercent (positions (updatePrices now [''BTC'' \<mapsto> Fin 60000] btc_state) ! 0) =
     Fin 50"
proof (intro conjI impI)
  assume h: "i < length (positions state) \<and>
    priceUpdates' (symbol (positions state ! i)) = Some p \<and> truthy p"
  then have step: "positions (updatePrices now priceUpdates' state) ! i =
      apply_price now p (positions state ! i)"
    by (simp add: positions_updatePrices update_price_of_def)
  show "currentPrice (positions (updatePrices now priceUpdates' state) ! i) = p"
    by (simp add: step apply_price_def Let_def)
  show "totalValue (positions (updatePrices now priceUpdates' state) ! i) =
      jmul (amount (positions state ! i)) p"
    by (simp add: step apply_price_def Let_def)
  show "amount (positions (updatePrices now priceUpdates' state) ! i) =
      amount (positions state ! i)"
    by (simp add: step apply_price_def Let_def)
next
  have scenario: "positions (updatePrices now [''BTC'' \<mapsto> Fin 60000] btc_state) ! 0 =
      apply_price now (Fin 60000) btc_holding"
    by (simp add: positions_updatePrices positions_btc_state update_price_of_def btc_holding_def)
  show "totalValue (positions (updatePrices now [''BTC'' \<mapsto> Fin 60000] btc_state) ! 0) =
      Fin 120000"
    by (simp add: scenario apply_price_def Let_def btc_holding_def)
  show "totalGainLoss (positions (updatePrices now [''BTC'' \<mapsto> Fin 60000] btc_state) ! 0) =
      Fin 40000"
    by (simp add: scenario apply_price_def Let_def btc_holding_def jsub_def)
  show "totalGainLossPercent (positions (updatePrices now [''BTC'' \<mapsto> Fin 60000] btc_state) ! 0) =
      Fin 50"
    by (simp add: scenario apply_price_def Let_def btc_holding_def jsub_def)
qed

theorem updatePrices_sets_price_and_value_witness:
  "0 < length (positions btc_state) \<and>
   [''BTC'' \<mapsto> Fin 70000] (symbol (positions btc_state ! 0)) = Some (Fin 70000) \<and>
   truthy (Fin 70000) \<and>
   currentPrice (positions (updatePrices (Fin 1) [''BTC'' \<mapsto> Fin 70000] btc_state) ! 0) =
     Fin 70000 \<and>
   totalValue (positions (updatePrices (Fin 1) [''BTC'' \<mapsto> Fin 70000] btc_state) ! 0) =
     Fin 140000"
proof -
  have h: "0 < length (positions btc_state) \<and>
      [''BTC'' \<mapsto> Fin 70000] (symbol (positions btc_state ! 0)) = Some (Fin 70000) \<and>
      truthy (Fin 70000)"
    by (simp add: positions_btc_state btc_holding_def)
  have amt: "amount (positions btc_state ! 0) = Fin 2"
    by (simp add: positions_btc_state btc_holding_def)
  from h updatePrices_sets_price_and_value
         [of 0 btc_state "[''BTC'' \<mapsto> Fin 70000]" "Fin 70000" "Fin 1"]
  show ?thesis by (simp add: amt)
qed

text \<open>
  C4 fails on the code: \<open>updatePrices\<close> divides by the old price and by the average buy
  price without a guard. A holding of 2 units whose current price and average buy price
  are 0, updated with \<open>{BTC: 100}\<close>, gets \<open>Infinity\<close> as daily change percent and as
  total gain percent; and the aggregate, whose guard tests the total value and not the
  divisor, gets \<open>Infinity\<close> as total gain percent too.
\<close>

theorem updatePrices_divides_by_zero_price:
  "dailyChangePercent
     (positions
        (updatePrices (Fin 1) [''BTC'' \<mapsto> Fin 100]
           (addPosition (Fin 0)
              (btc_holding\<lparr>currentPrice := Fin 0, averageBuyPrice := Fin 0, totalValue := Fin 0,
                            totalGainLoss := Fin 0, totalGainLossPercent := Fin 0\<rparr>)
              (initial_PortfolioState (Fin 0)))) ! 0) = PInf \<and>
   totalGainLossPercent
     (positions
        (updatePrices (Fin 1) [''BTC'' \<mapsto> Fin 100]
           (addPosition (Fin 0)
              (btc_holding\<lparr>currentPrice := Fin 0, averageBuyPrice := Fin 0, totalValue := Fin 0,
                            totalGainLoss := Fin 0, totalGainLossPercent := Fin 0\<rparr>)
              (initial_PortfolioState (Fin 0)))) ! 0) = PInf \<and>
   totalGainLossPercent_m
     (metrics
        (updatePrices (Fin 1) [''BTC'' \<mapsto> Fin 100]
           (addPosition (Fin 0)
              (btc_holding\<lparr>currentPrice := Fin 0, averageBuyPrice := Fin 0, totalValue := Fin 0,
                            totalGainLoss := Fin 0, totalGainLossPercent := Fin 0\<rparr>)
              (initial_PortfolioState (Fin 0))))) = PInf"
  by (simp add: updatePrices_def addPosition_def Let_def initial_PortfolioState_def
        btc_holding_def update_price_of_def apply_price_def jsub_def inf_of_sign_def
        calculateMetrics_def jgt_def)

subsection \<open>A price of zero\<close>

lemma bulk_step_other:
  "fst entry \<noteq> sy \<Longrightarrow>
   marketData (bulk_step now state entry) sy = marketData state sy \<and>
   priceUpdates (bulk_step now state entry) sy = priceUpdates state sy"
  by (cases entry) (simp add: bulk_step_def Let_def split: option.splits)

lemma foldl_bulk_step_other:
  "sy \<notin> fst ` set updates \<Longrightarrow>
   marketData (foldl (bulk_step now) state updates) sy = marketData state sy \<and>
   priceUpdates (foldl (bulk_step now) state updates) sy = priceUpdates state sy"
proof (induction updates arbitrary: state)
  case Nil
  then show ?case by simp
next
  case (Cons entry updates)
  then show ?case using bulk_step_other [of entry sy now state] by auto
qed

lemma bulk_step_same:
  "marketData (bulk_step now state (sy, newPrice)) sy =
     map_option (set_market_price now newPrice) (marketData state sy) \<and>
   priceUpdates (bulk_step now state (sy, newPrice)) sy = Some newPrice"
  by (simp add: bulk_step_def Let_def split: option.splits)

lemma foldl_bulk_step_entry:
  "distinct (map fst updates) \<Longrightarrow> (sy, newPrice) \<in> set updates \<Longrightarrow>
   marketData (foldl (bulk_step now) state updates) sy =
     map_option (set_market_price now newPrice) (marketData state sy) \<and>
   priceUpdates (foldl (bulk_step now) state updates) sy = Some newPrice"
proof (induction updates arbitrary: state)
  case Nil
  then show ?case by simp
next
  case (Cons entry updates)
  show ?case
  proof (cases "entry = (sy, newPrice)")
    case True
    with Cons.prems have "sy \<notin> fst ` set updates" by auto
    from foldl_bulk_step_other [OF this, of now "bulk_step now state entry"]
      bulk_step_same [of now state sy newPrice] True
    show ?thesis by simp
  next
    case False
    with Cons.prems have later: "(sy, newPrice) \<in> set updates" and d: "distinct (map fst updates)"
      by auto
    from Cons.prems(1) have "fst entry \<notin> fst ` set updates" by simp
    moreover from later have "sy \<in> fst ` set updates" by force
    ultimately have "fst entry \<noteq> sy" by blast
    then have "marketData (bulk_step now state entry) sy = marketData state sy"
      using bulk_step_other [of entry sy now state] by simp
    with Cons.IH [OF d later, of "bulk_step now state entry"] show ?thesis by simp
  qed
qed

text \<open>
  C9, as stated, fails for the market store: the guard of \<open>bulkUpdatePrices\<close> tests that
  the market-data entry exists, not the price. The update \<open>{BTC: 0}\<close> on a market that
  lists BTC at 50000 sets the price to 0 and the change to -100 percent.
\<close>

theorem bulkUpdatePrices_applies_zero_price:
  "map_option price (marketData btc_market ''BTC'') = Some (Fin 50000) \<and>
   map_option price (marketData (bulkUpdatePrices (Fin 1) [(''BTC'', Fin 0)] btc_market) ''BTC'') =
     Some (Fin 0) \<and>
   map_option changePercent24h
     (marketData (bulkUpdatePrices (Fin 1) [(''BTC'', Fin 0)] btc_market) ''BTC'') =
     Some (Fin (- 100))"
  by (simp add: bulkUpdatePrices_def bulk_step_def Let_def btc_market_def
        initial_MarketState_def set_market_price_def jsub_def)

text \<open>
  C9 (amended). When the update object maps a symbol to the price 0, \<open>updatePrices\<close>
  leaves every position of that symbol as it is, in every field; \<open>bulkUpdatePrices\<close> of
  the market store does not skip the symbol: it records the price 0 and, where the
  symbol has a market-data entry, rewrites the entry with the price 0.
\<close>

theorem zero_price_in_the_two_stores:
  "distinct (map fst updates) \<and> (sy, Fin 0) \<in> set updates \<longrightarrow>
     (\<forall>i<length (positions state).
        symbol (positions state ! i) = sy \<longrightarrow>
        positions (updatePrices now (map_of updates) state) ! i = positions state ! i) \<and>
     priceUpdates (bulkUpdatePrices now updates market) sy = Some (Fin 0) \<and>
     (\<forall>md. marketData market sy = Some md \<longrightarrow>
        marketData (bulkUpdatePrices now updates market) sy =
          Some (set_market_price now (Fin 0) md) \<and>
        price (set_market_price now (Fin 0) md) = Fin 0)"
proof (intro impI conjI allI)
  assume h: "distinct (map fst updates) \<and> (sy, Fin 0) \<in> set updates"
  then have look: "map_of updates sy = Some (Fin 0)"
    by simp
  fix i
  assume "i < length (positions state)" and "symbol (positions state ! i) = sy"
  with look show "positions (updatePrices now (map_of updates) state) ! i = positions state ! i"
    by (simp add: positions_updatePrices update_price_of_def)
next
  assume h: "distinct (map fst updates) \<and> (sy, Fin 0) \<in> set updates"
  with foldl_bulk_step_entry [of updates sy "Fin 0" now market]
  show "priceUpdates (bulkUpdatePrices now updates market) sy = Some (Fin 0)"
    by (simp add: bulkUpdatePrices_def)
next
  fix md
  assume h: "distinct (map fst updates) \<and> (sy, Fin 0) \<in> set updates"
    and md: "marketData market sy = Some md"
  with foldl_bulk_step_entry [of updates sy "Fin 0" now market]
  show "marketData (bulkUpdatePrices now updates market) sy =
      Some (set_market_price now (Fin 0) md)"
    by (simp add: bulkUpdatePrices_def)
  show "price (set_market_price now (Fin 0) md) = Fin 0"
    by (simp add: set_market_price_def Let_def)
qed

theorem zero_price_in_the_two_stores_witness:
  "distinct (map fst [(''BTC'', Fin 0), (''ETH'', Fin 3900)]) \<and>
   (''BTC'', Fin 0) \<in> set [(''BTC'', Fin 0), (''ETH'', Fin 3900)] \<and>
   0 < length (positions btc_state) \<and>
   symbol (positions btc_state ! 0) = ''BTC'' \<and>
   positions (updatePrices (Fin 1) (map_of [(''BTC'', Fin 0), (''ETH'', Fin 3900)]) btc_state) ! 0 =
     btc_holding \<and>
   priceUpdates (bulkUpdatePrices (Fin 1) [(''BTC'', Fin 0), (''ETH'', Fin 3900)] btc_market)
     ''BTC'' = Some (Fin 0)"
proof -
  have h: "distinct (map fst [(''BTC'', Fin 0), (''ETH'', Fin 3900)]) \<and>
      (''BTC'', Fin 0) \<in> set [(''BTC'', Fin 0), (''ETH'', Fin 3900)]"
    by simp
  have p: "positions btc_state = [btc_holding]"
    by (rule positions_btc_state)
  from h zero_price_in_the_two_stores
           [of "[(''BTC'', Fin 0), (''ETH'', Fin 3900)]" "''BTC''" btc_state "Fin 1" btc_market]
  show ?thesis
    by (simp add: p btc_holding_def)
qed

section \<open>Simulated trades\<close>

lemma positions_optimisticTrade:
  "positions (optimisticTrade now trade state) =
     update_first (\<lambda>p. symbol p = symbol_t trade) (trade_position now trade) (positions state)"
  by (simp add: optimisticTrade_def Let_def)

lemma fields_kept_by_sell_trade:
  "type_t trade = Sell \<Longrightarrow> fields_kept_by_sell (trade_position now trade p) = fields_kept_by_sell p"
  by (simp add: fields_kept_by_sell_def trade_position_def Let_def)

lemma positions_two_btc_state:
  "positions two_btc_state = [btc_holding, btc_holding\<lparr>id_pos := ''3''\<rparr>]"
  by (simp add: two_btc_state_def addPosition_def Let_def positions_btc_state btc_holding_def)

lemma update_first_nth_other:
  "i < length xs \<Longrightarrow> P (xs ! i) \<Longrightarrow> \<forall>j<i. \<not> P (xs ! j) \<Longrightarrow> j < length xs \<Longrightarrow> j \<noteq> i \<Longrightarrow>
   update_first P f xs ! j = xs ! j"
proof (induction xs arbitrary: i j)
  case Nil
  then show ?case by simp
next
  case (Cons x xs)
  show ?case
  proof (cases i)
    case 0
    with Cons.prems show ?thesis by simp
  next
    case (Suc k)
    with Cons.prems have nx: "\<not> P x" by auto
    show ?thesis
    proof (cases j)
      case 0
      with nx show ?thesis by simp
    next
      case (Suc l)
      from \<open>i = Suc k\<close> Cons.prems have "\<forall>m<k. \<not> P (xs ! m)" by auto
      with \<open>i = Suc k\<close> Suc Cons.prems nx Cons.IH [of k l] show ?thesis by simp
    qed
  qed
qed

lemma update_first_no_match: "\<forall>x\<in>set xs. \<not> P x \<Longrightarrow> update_first P f xs = xs"
  by (induction xs) simp_all

text \<open>
  C7, as stated, fails on a store that holds the trade's symbol twice: \<open>find\<close> returns the
  first position only. After a buy of 2 BTC at 60000 the second BTC position keeps its
  average buy price 40000, where the weighted average of its own amount would be 50000.
  And a sell writes the time stamp of the position it finds (here from 0 to 1), which is
  no quantity-derived field.
\<close>

theorem optimisticTrade_skips_second_position:
  "symbol (positions two_btc_state ! 1) = ''BTC'' \<and>
   averageBuyPrice
     (positions
        (optimisticTrade (Fin 1)
           \<lparr> symbol_t = ''BTC'', amount_t = Fin 2, price_t = Fin 60000, type_t = Buy \<rparr>
           two_btc_state) ! 1) = Fin 40000 \<and>
   jdiv (jadd (jmul (amount (positions two_btc_state ! 1))
                    (averageBuyPrice (positions two_btc_state ! 1)))
              (jmul (Fin 2) (Fin 60000)))
        (jadd (amount (positions two_btc_state ! 1)) (Fin 2)) = Fin 50000 \<and>
   lastUpdated (positions two_btc_state ! 0) = Fin 0 \<and>
   lastUpdated
     (positions
        (optimisticTrade (Fin 1)
           \<lparr> symbol_t = ''BTC'', amount_t = Fin 1, price_t = Fin 60000, type_t = Sell \<rparr>
           two_btc_state) ! 0) = Fin 1"
  by (simp add: positions_optimisticTrade positions_two_btc_state trade_position_def Let_def
        btc_holding_def)

text \<open>
  C7 (amended). A simulated trade rewrites the first position with the trade's symbol
  and no other: every other position, also a later one with the same symbol, stays as
  it is in every field, and so does every position when none has the symbol. On the
  position it rewrites, a sell leaves the average buy price unchanged and changes only
  the amount (to max(0, oldAmount - tradeAmount)), the total value, the total gain and
  the time stamp; a buy sets the average buy price to
  (oldAmount * oldAvg + tradeAmount * tradePrice) / (oldAmount + tradeAmount). So a sell
  leaves the average buy price of every position unchanged.
\<close>

theorem optimisticTrade_first_position:
  "(i < length (positions state) \<and> symbol (positions state ! i) = symbol_t trade \<and>
    (\<forall>j<i. symbol (positions state ! j) \<noteq> symbol_t trade) \<longrightarrow>
      length (positions (optimisticTrade now trade state)) = length (positions state) \<and>
      (\<forall>j<length (positions state).
         j \<noteq> i \<longrightarrow> positions (optimisticTrade now trade state) ! j = positions state ! j) \<and>
      lastUpdated (positions (optimisticTrade now trade state) ! i) = now \<and>
      (type_t trade = Sell \<longrightarrow>
         fields_kept_by_sell (positions (optimisticTrade now trade state) ! i) =
           fields_kept_by_sell (positions state ! i) \<and>
         averageBuyPrice (positions (optimisticTrade now trade state) ! i) =
           averageBuyPrice (positions state ! i) \<and>
         amount (positions (optimisticTrade now trade state) ! i) =
           Math_max (Fin 0) (jsub (amount (positions state ! i)) (amount_t trade))) \<and>
      (type_t trade = Buy \<longrightarrow>
         averageBuyPrice (positions (optimisticTrade now trade state) ! i) =
           jdiv (jadd (jmul (amount (positions state ! i))
                            (averageBuyPrice (positions state ! i)))
                      (jmul (amount_t trade) (price_t trade)))
                (jadd (amount (positions state ! i)) (amount_t trade)) \<and>
         amount (positions (optimisticTrade now trade state) ! i) =
           jadd (amount (positions state ! i)) (amount_t trade))) \<and>
   ((\<forall>p\<in>set (positions state). symbol p \<noteq> symbol_t trade) \<longrightarrow>
      positions (optimisticTrade now trade state) = positions state) \<and>
   (type_t trade = Sell \<longrightarrow>
      map averageBuyPrice (positions (optimisticTrade now trade state)) =
        map averageBuyPrice (positions state))"
proof (intro conjI impI allI)
  assume first: "i < length (positions state) \<and> symbol (positions state ! i) = symbol_t trade \<and>
    (\<forall>j<i. symbol (positions state ! j) \<noteq> symbol_t trade)"
  then have at_i: "positions (optimisticTrade now trade state) ! i =
      trade_position now trade (positions state ! i)"
    by (simp add: positions_optimisticTrade update_first_nth)
  show "length (positions (optimisticTrade now trade state)) = length (positions state)"
    by (simp add: positions_optimisticTrade length_update_first)
  show "lastUpdated (positions (optimisticTrade now trade state) ! i) = now"
    unfolding at_i by (cases "type_t trade") (simp_all add: trade_position_def Let_def)
  {
    fix j
    assume "j < length (positions state)" and "j \<noteq> i"
    with first show "positions (optimisticTrade now trade state) ! j = positions state ! j"
      using update_first_nth_other
              [of i "positions state" "\<lambda>p. symbol p = symbol_t trade" j
                  "trade_position now trade"]
      by (simp add: positions_optimisticTrade)
  }
  {
    assume sell: "type_t trade = Sell"
    then show "fields_kept_by_sell (positions (optimisticTrade now trade state) ! i) =
        fields_kept_by_sell (positions state ! i)"
      unfolding at_i by (rule fields_kept_by_sell_trade)
    from sell show "averageBuyPrice (positions (optimisticTrade now trade state) ! i) =
        averageBuyPrice (positions state ! i)"
      unfolding at_i by (simp add: trade_position_def Let_def)
    from sell show "amount (positions (optimisticTrade now trade state) ! i) =
        Math_max (Fin 0) (jsub (amount (positions state ! i)) (amount_t trade))"
      unfolding at_i by (simp add: trade_position_def Let_def)
  }
  {
    assume buy: "type_t trade = Buy"
    then show "averageBuyPrice (positions (optimisticTrade now trade state) ! i) =
        jdiv (jadd (jmul (amount (positions state ! i)) (averageBuyPrice (positions state ! i)))
                   (jmul (amount_t trade) (price_t trade)))
             (jadd (amount (positions state ! i)) (amount_t trade))"
      unfolding at_i by (simp add: trade_position_def Let_def)
    from buy show "amount (positions (optimisticTrade now trade state) ! i) =
        jadd (amount (positions state ! i)) (amount_t trade)"
      unfolding at_i by (simp add: trade_position_def Let_def)
  }
next
  assume "\<forall>p\<in>set (positions state). symbol p \<noteq> symbol_t trade"
  then show "positions (optimisticTrade now trade state) = positions state"
    by (simp add: positions_optimisticTrade update_first_no_match)
next
  assume sell: "type_t trade = Sell"
  then have "\<And>p. averageBuyPrice (trade_position now trade p) = averageBuyPrice p"
    by (simp add: trade_position_def Let_def)
  then show "map averageBuyPrice (positions (optimisticTrade now trade state)) =
      map averageBuyPrice (positions state)"
    by (simp add: positions_optimisticTrade map_update_first_frame)
qed

theorem optimisticTrade_first_position_witness:
  "0 < length (positions two_btc_state) \<and>
   symbol (positions two_btc_state ! 0) = ''BTC'' \<and>
   averageBuyPrice
     (positions
        (optimisticTrade (Fin 1)
           \<lparr> symbol_t = ''BTC'', amount_t = Fin 2, price_t = Fin 60000, type_t = Buy \<rparr>
           two_btc_state) ! 0) = Fin 50000 \<and>
   positions
     (optimisticTrade (Fin 1)
        \<lparr> symbol_t = ''BTC'', amount_t = Fin 2, price_t = Fin 60000, type_t = Buy \<rparr>
        two_btc_state) ! 1 = btc_holding\<lparr>id_pos := ''3''\<rparr> \<and>
   map averageBuyPrice
     (positions
        (optimisticTrade (Fin 1)
           \<lparr> symbol_t = ''BTC'', amount_t = Fin 1, price_t = Fin 60000, type_t = Sell \<rparr>
           two_btc_state)) = [Fin 40000, Fin 40000] \<and>
   amount
     (positions
        (optimisticTrade (Fin 1)
           \<lparr> symbol_t = ''BTC'', amount_t = Fin 1, price_t = Fin 60000, type_t = Sell \<rparr>
           two_btc_state) ! 0) = Fin 1"
proof -
  have p: "positions two_btc_state = [btc_holding, btc_holding\<lparr>id_pos := ''3''\<rparr>]"
    by (rule positions_two_btc_state)
  have first: "0 < length (positions two_btc_state) \<and>
      symbol (positions two_btc_state ! 0) = ''BTC''"
    by (simp add: p btc_holding_def)
  have buy: "averageBuyPrice
       (positions
          (optimisticTrade (Fin 1)
             \<lparr> symbol_t = ''BTC'', amount_t = Fin 2, price_t = Fin 60000, type_t = Buy \<rparr>
             two_btc_state) ! 0) = Fin 50000 \<and>
     positions
       (optimisticTrade (Fin 1)
          \<lparr> symbol_t = ''BTC'', amount_t = Fin 2, price_t = Fin 60000, type_t = Buy \<rparr>
          two_btc_state) ! 1 = btc_holding\<lparr>id_pos := ''3''\<rparr>"
    using first optimisticTrade_first_position
            [of 0 two_btc_state
                "\<lparr> symbol_t = ''BTC'', amount_t = Fin 2, price_t = Fin 60000, type_t = Buy \<rparr>"
                "Fin 1"]
    by (simp add: p btc_holding_def)
  have sell: "map averageBuyPrice
       (positions
          (optimisticTrade (Fin 1)
             \<lparr> symbol_t = ''BTC'', amount_t = Fin 1, price_t = Fin 60000, type_t = Sell \<rparr>
             two_btc_state)) = [Fin 40000, Fin 40000] \<and>
     amount
       (positions
          (optimisticTrade (Fin 1)
             \<lparr> symbol_t = ''BTC'', amount_t = Fin 1, price_t = Fin 60000, type_t = Sell \<rparr>
             two_btc_state) ! 0) = Fin 1"
    using first optimisticTrade_first_position
            [of 0 two_btc_state
                "\<lparr> symbol_t = ''BTC'', amount_t = Fin 1, price_t = Fin 60000, type_t = Sell \<rparr>"
                "Fin 1"]
    by (simp add: p btc_holding_def Math_max_def jsub_def)
  from first buy sell show ?thesis by simp
qed

section \<open>Best and worst performer\<close>

text \<open>
  C6 fails on the code: \<open>best?.dailyChangePercent || -Infinity\<close> reads a daily change
  of 0 as missing. With a first position at 0 percent and a second at -5 percent the
  best performer is the second, although the first attains the maximum; with 0 and 5
  percent the worst performer is the second, although the first attains the minimum.
\<close>

theorem calculateMetrics_best_performer_after_zero:
  "bestPerformer
     (calculateMetrics
        [btc_holding\<lparr>dailyChangePercent := Fin 0\<rparr>,
         btc_holding\<lparr>id_pos := ''2'', symbol := ''eth'', name := ''Ethereum'',
                      dailyChangePercent := Fin (- 5)\<rparr>]) = ''ETH'' \<and>
   worstPerformer
     (calculateMetrics
        [btc_holding\<lparr>dailyChangePercent := Fin 0\<rparr>,
         btc_holding\<lparr>id_pos := ''2'', symbol := ''eth'', name := ''Ethereum'',
                      dailyChangePercent := Fin 5\<rparr>]) = ''ETH''"
  by (simp add: calculateMetrics_def Let_def first_position_def best_step_def worst_step_def
        jor_undefined_def jor_def jgt_def performer_label_def btc_holding_def toUpperCase_def
        toUpperCase_char_def lower_letters_def upper_letters_def)

section \<open>The window of the virtualized list\<close>

lemma trunc_of_int: "trunc (of_int z) = z"
  by (simp add: trunc_def)

lemma relative_index_of_int:
  "relative_index len (Fin (of_int z)) =
     (if z < 0 then nat (max (int len + z) 0) else min (nat z) len)"
  by (simp add: relative_index_def trunc_of_int)

lemma relative_index_le: "relative_index len x \<le> len"
  by (cases x) (auto simp: relative_index_def)

lemma length_slice:
  "length (slice xs start end') =
     relative_index (length xs) end' - relative_index (length xs) start"
  using relative_index_le [of "length xs" end']
  by (auto simp: slice_def Let_def)

lemma Math_min_Fin: "Math_min (Fin a) (Fin b) = Fin (min a b)"
  by (auto simp: Math_min_def)

lemma endIndex_of_int:
  "0 < ih \<Longrightarrow>
   jadd (Math_min
           (jadd (jadd (Math_floor (jdiv (Fin st) (Fin ih))) (Math_ceil (jdiv (Fin ch) (Fin ih))))
                 (Fin 1))
           (jsub (Fin (of_nat n)) (Fin 1))) (Fin 1) =
   Fin (of_int (min (\<lfloor>st / ih\<rfloor> + \<lceil>ch / ih\<rceil> + 2) (int n)))"
  by (simp add: Math_min_Fin jsub_def min_def)

lemma visibleItems_length:
  "0 < ih \<Longrightarrow>
   length (visibleItems (useVirtualization items (Fin ch) (Fin ih) (Fin st))) =
     relative_index (length items)
       (Fin (of_int (min (\<lfloor>st / ih\<rfloor> + \<lceil>ch / ih\<rceil> + 2) (int (length items))))) -
     relative_index (length items) (Fin (of_int \<lfloor>st / ih\<rfloor>))"
  using endIndex_of_int [of ih st ch "length items"]
  by (simp add: useVirtualization_def Let_def length_slice)

lemma window_arith:
  fixes s c :: int and n :: nat
  assumes "0 \<le> c"
  shows "int ((if min (s + c + 2) (int n) < 0 then nat (max (int n + min (s + c + 2) (int n)) 0)
               else min (nat (min (s + c + 2) (int n))) n) -
              (if s < 0 then nat (max (int n + s) 0) else min (nat s) n)) \<le> c + 2"
  using assms by (auto split: if_splits simp: min_def max_def)

text \<open>
  C3, as stated, fails: the end index is start + ceil(containerHeight / rowHeight) + 1 and
  is itself rendered, so the window holds up to ceil(containerHeight / rowHeight) + 2
  rows. With the component's own sizes (container height 400, row height 56) and 10000
  items the window at the top of the list has 10 rows, more than ceil(400 / 56) + 1 = 9.
\<close>

theorem visibleItems_exceeds_claimed_bound:
  "\<not> int (length (visibleItems
                    (useVirtualization (replicate 10000 btc_holding) (Fin 400) default_itemHeight
                       (Fin 0)))) \<le> \<lceil>(400::real) / 56\<rceil> + 1"
  by (simp add: useVirtualization_def Let_def default_itemHeight_def Math_min_Fin jsub_def
        slice_def relative_index_def trunc_def)

text \<open>
  C3 (amended). For every item list, every container height that is not negative, every
  positive row height and every scroll offset, \<open>visibleItems\<close> has at most
  ceil(containerHeight / rowHeight) + 2 rows, where the ceiling is the one the hook
  computes.
\<close>

theorem visibleItems_bound:
  "0 < itemHeight \<and> 0 \<le> containerHeight \<longrightarrow>
     Math_ceil (jdiv (Fin containerHeight) (Fin itemHeight)) =
       Fin (of_int \<lceil>containerHeight / itemHeight\<rceil>) \<and>
     int (length (visibleItems
                    (useVirtualization items (Fin containerHeight) (Fin itemHeight)
                       (Fin scrollTop)))) \<le> \<lceil>containerHeight / itemHeight\<rceil> + 2"
proof (intro impI conjI)
  assume h: "0 < itemHeight \<and> 0 \<le> containerHeight"
  then show "Math_ceil (jdiv (Fin containerHeight) (Fin itemHeight)) =
      Fin (of_int \<lceil>containerHeight / itemHeight\<rceil>)"
    by simp
  from h have "0 \<le> containerHeight / itemHeight"
    by simp
  then have c: "0 \<le> \<lceil>containerHeight / itemHeight\<rceil>"
    by (simp add: ceiling_le_iff order_trans [of "- 1" 0])
  from h have len: "length (visibleItems
        (useVirtualization items (Fin containerHeight) (Fin itemHeight) (Fin scrollTop))) =
     relative_index (length items)
       (Fin (of_int (min (\<lfloor>scrollTop / itemHeight\<rfloor> + \<lceil>containerHeight / itemHeight\<rceil> + 2)
                         (int (length items))))) -
     relative_index (length items) (Fin (of_int \<lfloor>scrollTop / itemHeight\<rfloor>))"
    by (simp add: visibleItems_length)
  show "int (length (visibleItems
                    (useVirtualization items (Fin containerHeight) (Fin itemHeight)
                       (Fin scrollTop)))) \<le> \<lceil>containerHeight / itemHeight\<rceil> + 2"
    unfolding len relative_index_of_int
    using window_arith [OF c, of "\<lfloor>scrollTop / itemHeight\<rfloor>" "length items"] by simp
qed

theorem visibleItems_bound_witness:
  "(0::real) < 56 \<and> (0::real) \<le> 400 \<and>
   int (length (visibleItems
                  (useVirtualization (replicate 10000 btc_holding) (Fin 400) (Fin 56)
                     (Fin 1000)))) \<le> 10"
  using visibleItems_bound [of 56 400 "replicate 10000 btc_holding" 1000]
  by simp

section \<open>Sorting the positions\<close>

subsection \<open>The sort as such\<close>


















subsection \<open>The comparator of the positions list\<close>



























end
